theory Spec2Isabelle
  imports Main "HOL-Library.Word"
begin

section \<open>The wait multiplexer of the PAL (src/shared/pal/src/synchmgr/wait.cpp)\<close>

text \<open>
  The theory embeds \<open>CorUnix::InternalWaitForMultipleObjectsEx\<close> and its caller
  \<open>WaitForSingleObject\<close>. The function talks to three collaborators whose code is not
  part of the file: the object manager (\<open>g_pObjectManager\<close>), the synchronization manager
  (\<open>g_pSynchronizationManager\<close>) with its per-object wait controllers, and the allocator.
  Their answers are parameters of the model (record \<open>collaborators\<close>); what the function
  does to them is recorded in the state (record \<open>world\<close>): the thread's last error, the
  reference counts of the objects, the number of controllers held, and the log of calls.
\<close>

subsection \<open>Types and constants\<close>

type_synonym DWORD = "32 word"
type_synonym BOOL = "32 word"
type_synonym PAL_ERROR = "32 word"
type_synonym HANDLE = nat
type_synonym IPalObject = nat

definition MAXIMUM_WAIT_OBJECTS :: DWORD where
  "MAXIMUM_WAIT_OBJECTS = 64"

definition MAXIMUM_STACK_WAITOBJ_ARRAY_SIZE :: DWORD where
  "MAXIMUM_STACK_WAITOBJ_ARRAY_SIZE = MAXIMUM_WAIT_OBJECTS div 4"

definition WAIT_OBJECT_0 :: DWORD where
  "WAIT_OBJECT_0 = 0"

definition WAIT_ABANDONED_0 :: DWORD where
  "WAIT_ABANDONED_0 = 0x00000080"

definition WAIT_TIMEOUT :: DWORD where
  "WAIT_TIMEOUT = 258"

definition WAIT_FAILED :: DWORD where
  "WAIT_FAILED = 0xFFFFFFFF"

definition NO_ERROR :: PAL_ERROR where
  "NO_ERROR = 0"

definition FALSE :: BOOL where
  "FALSE = 0"

definition TRUE :: BOOL where
  "TRUE = 1"

text \<open>
  The error codes are used by wait.cpp but defined in a header that is not part of the
  sources; they carry their Win32 values. Only their being pairwise different and
  different from \<open>NO_ERROR\<close> matters below.
\<close>

definition ERROR_INVALID_HANDLE :: PAL_ERROR where
  "ERROR_INVALID_HANDLE = 6"

definition ERROR_NOT_ENOUGH_MEMORY :: PAL_ERROR where
  "ERROR_NOT_ENOUGH_MEMORY = 8"

definition ERROR_NOT_SUPPORTED :: PAL_ERROR where
  "ERROR_NOT_SUPPORTED = 50"

definition ERROR_INVALID_PARAMETER :: PAL_ERROR where
  "ERROR_INVALID_PARAMETER = 87"

definition ERROR_INTERNAL_ERROR :: PAL_ERROR where
  "ERROR_INTERNAL_ERROR = 1359"

text \<open>The two enumerations of synchobjects.hpp that the function uses.\<close>

datatype WaitType = SingleObject | MultipleObjectsWaitOne | MultipleObjectsWaitAll

datatype ThreadWakeupReason = WaitSucceeded | Alerted | MutexAbondoned | WaitTimeout | WaitFailed

subsection \<open>Collaborators and state\<close>

text \<open>
  One entry of the log for every call the function makes to a collaborator; the index is
  the position of the object or controller in the working arrays.
\<close>

datatype call =
    NewArray
  | ReferenceObjects DWORD
  | GetControllers DWORD
  | CanWait nat
  | ReleaseWaiting nat
  | RegisterWaiting nat WaitType bool bool
  | ReleaseCtrl nat
  | Block DWORD bool
  | ReleaseRef nat
  | DeleteArray

text \<open>
  The answers of the collaborators during one call. Arrays are functions from the index.
  \<^item> \<open>InternalNewArray_objs\<close>, \<open>InternalNewArray_ctrls\<close>: whether the allocation of the
    heap array returns a non-NULL pointer;
  \<^item> \<open>ReferenceMultipleObjectsByHandleArray\<close>: the error code and the objects written to
    \<open>ppIPalObjs\<close>;
  \<^item> \<open>CanThreadWaitWithoutBlocking i\<close>: error code, \<open>fValue\<close> and
    \<open>fWaitObjectAbandoned\<close> of controller \<open>i\<close>;
  \<^item> \<open>BlockThread\<close>: error code, wakeup reason and the value written through the
    pointer to \<open>iSignaledObjIndex\<close> (\<open>None\<close> when nothing is written).
\<close>

record collaborators =
  InternalNewArray_objs :: bool
  InternalNewArray_ctrls :: bool
  ReferenceMultipleObjectsByHandleArray ::
    "(nat \<Rightarrow> HANDLE) \<Rightarrow> DWORD \<Rightarrow> PAL_ERROR \<times> (nat \<Rightarrow> IPalObject)"
  GetSynchWaitControllersForObjects :: "(nat \<Rightarrow> IPalObject) \<Rightarrow> DWORD \<Rightarrow> PAL_ERROR"
  CanThreadWaitWithoutBlocking :: "nat \<Rightarrow> PAL_ERROR \<times> bool \<times> bool"
  ReleaseWaitingThreadWithoutBlocking :: "nat \<Rightarrow> PAL_ERROR"
  RegisterWaitingThread :: "nat \<Rightarrow> WaitType \<Rightarrow> bool \<Rightarrow> bool \<Rightarrow> PAL_ERROR"
  BlockThread :: "DWORD \<Rightarrow> bool \<Rightarrow> PAL_ERROR \<times> ThreadWakeupReason \<times> DWORD option"

record world =
  last_error :: PAL_ERROR
  refcount :: "IPalObject \<Rightarrow> int"
  controllers_held :: int
  calls :: "call list"

definition SetLastError :: "PAL_ERROR \<Rightarrow> world \<Rightarrow> world" where
  "SetLastError e w = w\<lparr>last_error := e\<rparr>"

definition log_call :: "call \<Rightarrow> world \<Rightarrow> world" where
  "log_call x w = w\<lparr>calls := calls w @ [x]\<rparr>"

subsection \<open>Effects of the collaborators\<close>

text \<open>
  Modelled from the spec: the body of \<open>ReferenceMultipleObjectsByHandleArray\<close> is missing.
  On success every one of the \<open>nCount\<close> resolved objects is pinned (one reference each);
  on failure no pin survives.
\<close>

function pin_objects :: "(nat \<Rightarrow> IPalObject) \<Rightarrow> nat \<Rightarrow> nat \<Rightarrow> world \<Rightarrow> world" where
  "pin_objects ppIPalObjs n i w =
     (if i < n
      then pin_objects ppIPalObjs n (Suc i)
             (w\<lparr>refcount := (refcount w)(ppIPalObjs i := refcount w (ppIPalObjs i) + 1)\<rparr>)
      else w)"
  by pat_completeness auto
termination
  by (relation "measure (\<lambda>(ppIPalObjs, n, i, w). n - i)") auto

text \<open>
  Modelled from the spec: the body of \<open>GetSynchWaitControllersForObjects\<close> is missing.
  On success one wait controller per object is handed out; on failure none.
\<close>

definition obtain_controllers :: "nat \<Rightarrow> world \<Rightarrow> world" where
  "obtain_controllers n w = w\<lparr>controllers_held := controllers_held w + int n\<rparr>"

text \<open>\<open>ppISyncWaitCtrlrs[i]->ReleaseController()\<close> gives one controller back.\<close>

definition ReleaseController :: "nat \<Rightarrow> world \<Rightarrow> world" where
  "ReleaseController i w =
     log_call (ReleaseCtrl i) (w\<lparr>controllers_held := controllers_held w - 1\<rparr>)"

text \<open>\<open>ppIPalObjs[i]->ReleaseReference(pThread)\<close> drops one reference of the object.\<close>

definition ReleaseReference :: "(nat \<Rightarrow> IPalObject) \<Rightarrow> nat \<Rightarrow> world \<Rightarrow> world" where
  "ReleaseReference ppIPalObjs i w =
     log_call (ReleaseRef i)
       (w\<lparr>refcount := (refcount w)(ppIPalObjs i := refcount w (ppIPalObjs i) - 1)\<rparr>)"

subsection \<open>The labels at the end of the function\<close>

text \<open>
  \<open>WFMOExIntExit\<close> (lines 352-357): the heap arrays are deleted when the count is above
  the stack threshold; deleting a NULL pointer does nothing. The flags say whether the
  pointer is a non-NULL heap array.
\<close>

definition InternalDeleteArray :: "bool \<Rightarrow> world \<Rightarrow> world" where
  "InternalDeleteArray heap w = (if heap then log_call DeleteArray w else w)"

definition WFMOExIntExit :: "DWORD \<Rightarrow> bool \<Rightarrow> bool \<Rightarrow> world \<Rightarrow> world" where
  "WFMOExIntExit nCount heapObjs heapCtrls w =
     (if nCount > MAXIMUM_STACK_WAITOBJ_ARRAY_SIZE
      then InternalDeleteArray heapCtrls (InternalDeleteArray heapObjs w)
      else w)"

text \<open>The loop of \<open>WFMOExIntCleanup\<close> (lines 346-350), from index \<open>i\<close>.\<close>

function release_references :: "(nat \<Rightarrow> IPalObject) \<Rightarrow> nat \<Rightarrow> nat \<Rightarrow> world \<Rightarrow> world" where
  "release_references ppIPalObjs n i w =
     (if i < n
      then release_references ppIPalObjs n (Suc i) (ReleaseReference ppIPalObjs i w)
      else w)"
  by pat_completeness auto
termination
  by (relation "measure (\<lambda>(ppIPalObjs, n, i, w). n - i)") auto

definition WFMOExIntCleanup ::
  "DWORD \<Rightarrow> (nat \<Rightarrow> IPalObject) \<Rightarrow> bool \<Rightarrow> world \<Rightarrow> world" where
  "WFMOExIntCleanup nCount ppIPalObjs heap w =
     WFMOExIntExit nCount heap heap
       (release_references ppIPalObjs (nat (sint nCount)) 0 w)"

text \<open>The loop of \<open>WFMOExIntReleaseControllers\<close> (lines 277-281), from index \<open>i\<close>.\<close>

function release_controllers :: "nat \<Rightarrow> nat \<Rightarrow> world \<Rightarrow> world" where
  "release_controllers n i w =
     (if i < n then release_controllers n (Suc i) (ReleaseController i w) else w)"
  by pat_completeness auto
termination
  by (relation "measure (\<lambda>(n, i, w). n - i)") auto

subsection \<open>The loops over the controllers\<close>

text \<open>
  The pre-check pass (lines 182-206), from index \<open>i\<close>. The locals are \<open>fAbandoned\<close>,
  \<open>iSignaledObjCount\<close> and \<open>iSignaledObjIndex\<close>; the counters are C ints that stay
  between -1 and 64. A failing controller sets the last error and leaves the loop for
  \<open>WFMOExIntReleaseControllers\<close> with its error code in \<open>palErr\<close>.
\<close>

function precheck ::
  "collaborators \<Rightarrow> bool \<Rightarrow> nat \<Rightarrow> nat \<Rightarrow> bool \<times> int \<times> int \<Rightarrow> world
     \<Rightarrow> PAL_ERROR \<times> (bool \<times> int \<times> int) \<times> world" where
  "precheck c fWAll n i (fAbandoned, iSignaledObjCount, iSignaledObjIndex) w =
     (if i < n then
        (case CanThreadWaitWithoutBlocking c i of
           (palErr, fValue, fWaitObjectAbandoned) \<Rightarrow>
             let w1 = log_call (CanWait i) w in
             if palErr \<noteq> NO_ERROR
             then (palErr, (fAbandoned, iSignaledObjCount, iSignaledObjIndex),
                   SetLastError ERROR_INTERNAL_ERROR w1)
             else
               let fAbandoned1 = (if fWaitObjectAbandoned then True else fAbandoned) in
               if fValue then
                 (if \<not> fWAll
                  then (NO_ERROR, (fAbandoned1, iSignaledObjCount + 1, int i), w1)
                  else precheck c fWAll n (Suc i)
                         (fAbandoned1, iSignaledObjCount + 1, int i) w1)
               else precheck c fWAll n (Suc i)
                      (fAbandoned1, iSignaledObjCount, iSignaledObjIndex) w1)
      else (NO_ERROR, (fAbandoned, iSignaledObjCount, iSignaledObjIndex), w))"
  by pat_completeness auto
termination
  by (relation "measure (\<lambda>(c, fWAll, n, i, l, w). n - i)") auto

text \<open>The loop that unsignals the objects on the fast path (lines 234-245).\<close>

function unsignal :: "collaborators \<Rightarrow> nat \<Rightarrow> nat \<Rightarrow> world \<Rightarrow> PAL_ERROR \<times> world" where
  "unsignal c i iEndIdx w =
     (if i < iEndIdx then
        (let palErr = ReleaseWaitingThreadWithoutBlocking c i;
             w1 = log_call (ReleaseWaiting i) w
         in if palErr \<noteq> NO_ERROR then (palErr, SetLastError palErr w1)
            else unsignal c (Suc i) iEndIdx w1)
      else (NO_ERROR, w))"
  by pat_completeness auto
termination
  by (relation "measure (\<lambda>(c, i, iEndIdx, w). iEndIdx - i)") auto

text \<open>The loop that registers the thread with every controller (lines 258-272).\<close>

function register_thread ::
  "collaborators \<Rightarrow> WaitType \<Rightarrow> bool \<Rightarrow> bool \<Rightarrow> nat \<Rightarrow> nat \<Rightarrow> world \<Rightarrow> PAL_ERROR \<times> world" where
  "register_thread c wtWaitType fAlertable fPrioritize n i w =
     (if i < n then
        (let palErr = RegisterWaitingThread c i wtWaitType fAlertable fPrioritize;
             w1 = log_call (RegisterWaiting i wtWaitType fAlertable fPrioritize) w
         in if palErr \<noteq> NO_ERROR then (palErr, SetLastError palErr w1)
            else register_thread c wtWaitType fAlertable fPrioritize n (Suc i) w1)
      else (NO_ERROR, w))"
  by pat_completeness auto
termination
  by (relation "measure (\<lambda>(c, wt, a, p, n, i, w). n - i)") auto

text \<open>
  The duplicate check of a wait-all request (lines 150-162): \<open>i\<close> runs below
  \<open>nCount - 1\<close> (DWORD arithmetic) and \<open>j\<close> from \<open>i + 1\<close> below \<open>nCount\<close>.
\<close>

definition has_duplicate :: "(nat \<Rightarrow> IPalObject) \<Rightarrow> DWORD \<Rightarrow> bool" where
  "has_duplicate ppIPalObjs nCount =
     list_ex (\<lambda>i. list_ex (\<lambda>j. ppIPalObjs j = ppIPalObjs i) [Suc i ..< unat nCount])
       [0 ..< unat (nCount - 1)]"

subsection \<open>After the controllers are released\<close>

text \<open>The switch on the wakeup reason (lines 308-324).\<close>

fun wakeup_result :: "ThreadWakeupReason \<Rightarrow> DWORD" where
  "wakeup_result WaitSucceeded = WAIT_OBJECT_0"
| "wakeup_result MutexAbondoned = WAIT_ABANDONED_0"
| "wakeup_result WaitTimeout = WAIT_TIMEOUT"
| "wakeup_result WaitFailed = WAIT_FAILED"
| "wakeup_result Alerted = WAIT_FAILED"

text \<open>
  Lines 327-343: for a wait-any result of \<open>WAIT_OBJECT_0\<close> or \<open>WAIT_ABANDONED_0\<close> the
  index is added to the result. The two \<open>_ASSERT_MSG\<close> are debug-build assertions and
  compile to nothing otherwise; the only check that the function itself makes is
  \<open>iSignaledObjIndex < 0\<close>.
\<close>

definition add_signaled_index :: "bool \<Rightarrow> DWORD \<Rightarrow> int \<Rightarrow> world \<Rightarrow> DWORD \<times> world" where
  "add_signaled_index fWAll dwRet iSignaledObjIndex w =
     (if \<not> fWAll \<and> (WAIT_OBJECT_0 = dwRet \<or> WAIT_ABANDONED_0 = dwRet) then
        (if iSignaledObjIndex < 0
         then (WAIT_FAILED, SetLastError ERROR_INTERNAL_ERROR w)
         else (dwRet + word_of_int iSignaledObjIndex, w))
      else (dwRet, w))"

text \<open>
  Lines 285-343, entered with \<open>palErr = NO_ERROR\<close> once the controllers are released:
  the thread blocks when \<open>fNeedToBlock\<close> is set, and the wakeup reason becomes the
  result. \<open>BlockThread\<close> writes the index through \<open>(DWORD * )&iSignaledObjIndex\<close>, which
  the function reads back as an int.
\<close>

definition block_and_map ::
  "collaborators \<Rightarrow> bool \<Rightarrow> bool \<Rightarrow> DWORD \<Rightarrow> int \<Rightarrow> DWORD \<Rightarrow> BOOL \<Rightarrow> world \<Rightarrow> DWORD \<times> world" where
  "block_and_map c fWAll fNeedToBlock dwRet iSignaledObjIndex dwMilliseconds bAlertable w =
     (if fNeedToBlock then
        (case BlockThread c dwMilliseconds (TRUE = bAlertable) of
           (palErr, twrWakeupReason, written) \<Rightarrow>
             let w1 = log_call (Block dwMilliseconds (TRUE = bAlertable)) w;
                 iSignaledObjIndex1 =
                   (case written of None \<Rightarrow> iSignaledObjIndex | Some d \<Rightarrow> sint d)
             in if palErr \<noteq> NO_ERROR then (dwRet, SetLastError palErr w1)
                else add_signaled_index fWAll (wakeup_result twrWakeupReason)
                       iSignaledObjIndex1 w1)
      else add_signaled_index fWAll dwRet iSignaledObjIndex w)"

text \<open>
  The label \<open>WFMOExIntReleaseControllers\<close> (lines 275-283) and what follows it up to the
  label \<open>WFMOExIntCleanup\<close>: every controller is released, and an error that was carried
  here in \<open>palErr\<close> goes on to the cleanup with the result unchanged.
\<close>

definition WFMOExIntReleaseControllers ::
  "collaborators \<Rightarrow> DWORD \<Rightarrow> bool \<Rightarrow> bool \<Rightarrow> PAL_ERROR \<Rightarrow> DWORD \<Rightarrow> int \<Rightarrow> DWORD \<Rightarrow> BOOL
     \<Rightarrow> world \<Rightarrow> DWORD \<times> world" where
  "WFMOExIntReleaseControllers c nCount fWAll fNeedToBlock palErr dwRet iSignaledObjIndex
       dwMilliseconds bAlertable w =
     (let w1 = release_controllers (nat (sint nCount)) 0 w
      in if palErr \<noteq> NO_ERROR then (dwRet, w1)
         else block_and_map c fWAll fNeedToBlock dwRet iSignaledObjIndex
                dwMilliseconds bAlertable w1)"

subsection \<open>The function\<close>

text \<open>
  Lines 145-343: what the function does with the pinned objects, up to the label
  \<open>WFMOExIntCleanup\<close>. The result is the value of \<open>dwRet\<close> and the state at that label.
  The branch for \<open>bAlertable\<close> and the branch for \<open>iStartIdx < 0\<close> jump to
  \<open>WFMOExIntCleanup\<close>, past the release of the controllers.
\<close>

definition wait_for_objects ::
  "collaborators \<Rightarrow> DWORD \<Rightarrow> (nat \<Rightarrow> IPalObject) \<Rightarrow> bool \<Rightarrow> WaitType \<Rightarrow> DWORD \<Rightarrow> BOOL \<Rightarrow> BOOL
     \<Rightarrow> world \<Rightarrow> DWORD \<times> world" where
  "wait_for_objects c nCount ppIPalObjs fWAll wtWaitType dwMilliseconds bAlertable
       bPrioritize w =
     (let dwRet = WAIT_FAILED in
      if fWAll \<and> has_duplicate ppIPalObjs nCount
      then (dwRet, SetLastError ERROR_INVALID_PARAMETER w)
      else
        let palErr = GetSynchWaitControllersForObjects c ppIPalObjs nCount;
            w1 = log_call (GetControllers nCount) w
        in
        if palErr \<noteq> NO_ERROR then (dwRet, SetLastError ERROR_INTERNAL_ERROR w1)
        else
          let w2 = obtain_controllers (unat nCount) w1 in
          if bAlertable \<noteq> 0 then (WAIT_FAILED, SetLastError ERROR_INTERNAL_ERROR w2)
          else
            (case precheck c fWAll (nat (sint nCount)) 0 (False, 0, -1) w2 of
               (palErr, (fAbandoned, iSignaledObjCount, iSignaledObjIndex), w3) \<Rightarrow>
                 if palErr \<noteq> NO_ERROR
                 then WFMOExIntReleaseControllers c nCount fWAll False palErr dwRet
                        iSignaledObjIndex dwMilliseconds bAlertable w3
                 else
                   let fNeedToBlock =
                         (iSignaledObjCount = 0 \<or> (fWAll \<and> iSignaledObjCount < sint nCount))
                   in
                   if \<not> fNeedToBlock then
                     (let iStartIdx = (if fWAll then 0 else iSignaledObjIndex);
                          iEndIdx = (if fWAll then sint nCount else iStartIdx + 1)
                      in
                      if iStartIdx < 0
                      then (WAIT_FAILED, SetLastError ERROR_INTERNAL_ERROR w3)
                      else
                        (case unsignal c (nat iStartIdx) (nat iEndIdx) w3 of
                           (palErr, w4) \<Rightarrow>
                             WFMOExIntReleaseControllers c nCount fWAll False palErr
                               (if palErr \<noteq> NO_ERROR then dwRet
                                else if fAbandoned then WAIT_ABANDONED_0 else WAIT_OBJECT_0)
                               iSignaledObjIndex dwMilliseconds bAlertable w4))
                   else if 0 = dwMilliseconds
                   then WFMOExIntReleaseControllers c nCount fWAll False NO_ERROR
                          WAIT_TIMEOUT iSignaledObjIndex dwMilliseconds bAlertable w3
                   else
                     (case register_thread c wtWaitType (TRUE = bAlertable)
                             (bPrioritize \<noteq> FALSE) (nat (sint nCount)) 0 w3 of
                        (palErr, w4) \<Rightarrow>
                          WFMOExIntReleaseControllers c nCount fWAll True palErr dwRet
                            iSignaledObjIndex dwMilliseconds bAlertable w4)))"

text \<open>
  \<open>CorUnix::InternalWaitForMultipleObjectsEx\<close> (lines 71-360). \<open>lpHandles\<close> is the
  array of handles, \<open>w\<close> the state before the call; the result is the returned DWORD
  and the state after the call.
\<close>

definition InternalWaitForMultipleObjectsEx ::
  "collaborators \<Rightarrow> world \<Rightarrow> DWORD \<Rightarrow> (nat \<Rightarrow> HANDLE) \<Rightarrow> BOOL \<Rightarrow> DWORD \<Rightarrow> BOOL \<Rightarrow> BOOL
     \<Rightarrow> DWORD \<times> world" where
  "InternalWaitForMultipleObjectsEx c w nCount lpHandles bWaitAll dwMilliseconds bAlertable
       bPrioritize =
     (let dwRet = WAIT_FAILED in
      if nCount = 0 \<or> nCount > MAXIMUM_WAIT_OBJECTS
      then (dwRet, WFMOExIntExit nCount False False (SetLastError ERROR_INVALID_PARAMETER w))
      else
        let fWAll = (if nCount = 1 then False else bWaitAll \<noteq> 0);
            wtWaitType =
              (if nCount = 1 then SingleObject
               else if fWAll then MultipleObjectsWaitAll else MultipleObjectsWaitOne);
            heap = (nCount \<noteq> 1 \<and> nCount > MAXIMUM_STACK_WAITOBJ_ARRAY_SIZE);
            w0 = (if heap then log_call NewArray (log_call NewArray w) else w)
        in
        if heap \<and> \<not> (InternalNewArray_objs c \<and> InternalNewArray_ctrls c)
        then (dwRet, WFMOExIntExit nCount (InternalNewArray_objs c) (InternalNewArray_ctrls c)
                       (SetLastError ERROR_NOT_ENOUGH_MEMORY w0))
        else
          (case ReferenceMultipleObjectsByHandleArray c lpHandles nCount of
             (palErr, ppIPalObjs) \<Rightarrow>
               let w1 = log_call (ReferenceObjects nCount) w0 in
               if palErr \<noteq> NO_ERROR
               then (dwRet, WFMOExIntExit nCount heap heap
                              (SetLastError
                                 (if palErr = ERROR_INVALID_HANDLE then ERROR_INVALID_HANDLE
                                  else ERROR_INTERNAL_ERROR) w1))
               else
                 let w2 = pin_objects ppIPalObjs (unat nCount) 0 w1 in
                 if nCount > 1
                 then (dwRet, WFMOExIntCleanup nCount ppIPalObjs heap
                                (SetLastError ERROR_NOT_SUPPORTED w2))
                 else
                   (case wait_for_objects c nCount ppIPalObjs fWAll wtWaitType
                           dwMilliseconds bAlertable bPrioritize w2 of
                      (dwRet1, w3) \<Rightarrow> (dwRet1, WFMOExIntCleanup nCount ppIPalObjs heap w3))))"

text \<open>\<open>WaitForSingleObject\<close> (lines 50-69).\<close>

definition WaitForSingleObject :: "collaborators \<Rightarrow> world \<Rightarrow> HANDLE \<Rightarrow> DWORD \<Rightarrow> DWORD \<times> world" where
  "WaitForSingleObject c w hHandle dwMilliseconds =
     InternalWaitForMultipleObjectsEx c w 1 (\<lambda>i. hHandle) FALSE dwMilliseconds FALSE FALSE"

subsection \<open>Example collaborators and states\<close>

text \<open>
  Collaborators that never fail; handle \<open>h\<close> names object \<open>h\<close>. With
  \<open>ready_collaborators\<close> every object is signaled and none abandoned, with
  \<open>busy_collaborators\<close> no object is signaled and a blocked thread wakes by timeout.
\<close>

definition ready_collaborators :: collaborators where
  "ready_collaborators =
     \<lparr>InternalNewArray_objs = True,
      InternalNewArray_ctrls = True,
      ReferenceMultipleObjectsByHandleArray = (\<lambda>lpHandles nCount. (NO_ERROR, lpHandles)),
      GetSynchWaitControllersForObjects = (\<lambda>ppIPalObjs nCount. NO_ERROR),
      CanThreadWaitWithoutBlocking = (\<lambda>i. (NO_ERROR, True, False)),
      ReleaseWaitingThreadWithoutBlocking = (\<lambda>i. NO_ERROR),
      RegisterWaitingThread = (\<lambda>i wtWaitType fAlertable fPrioritize. NO_ERROR),
      BlockThread = (\<lambda>dwMilliseconds fAlertable. (NO_ERROR, WaitTimeout, None))\<rparr>"

definition busy_collaborators :: collaborators where
  "busy_collaborators =
     ready_collaborators\<lparr>CanThreadWaitWithoutBlocking := (\<lambda>i. (NO_ERROR, False, False))\<rparr>"

text \<open>
  With \<open>late_collaborators\<close> object 0 is not signaled and every later object is; with
  \<open>woken_collaborators reason index\<close> no object is signaled and \<open>BlockThread\<close> wakes the
  thread with the given reason and writes the given index.
\<close>

definition late_collaborators :: collaborators where
  "late_collaborators =
     ready_collaborators\<lparr>CanThreadWaitWithoutBlocking := (\<lambda>i. (NO_ERROR, 0 < i, False))\<rparr>"

definition woken_collaborators :: "ThreadWakeupReason \<Rightarrow> DWORD \<Rightarrow> collaborators" where
  "woken_collaborators reason index =
     busy_collaborators
       \<lparr>BlockThread := (\<lambda>dwMilliseconds fAlertable. (NO_ERROR, reason, Some index))\<rparr>"

text \<open>With \<open>abandoned_collaborators\<close> every object is signaled and reports abandonment.\<close>

definition abandoned_collaborators :: collaborators where
  "abandoned_collaborators =
     ready_collaborators\<lparr>CanThreadWaitWithoutBlocking := (\<lambda>i. (NO_ERROR, True, True))\<rparr>"

text \<open>
  With \<open>stale_collaborators\<close> object 0 reports abandonment but is not signaled, and
  every later object is signaled and not abandoned.
\<close>

definition stale_collaborators :: collaborators where
  "stale_collaborators =
     ready_collaborators\<lparr>CanThreadWaitWithoutBlocking := (\<lambda>i. (NO_ERROR, 0 < i, i = 0))\<rparr>"

text \<open>With \<open>closed_collaborators\<close> no handle resolves.\<close>

definition closed_collaborators :: collaborators where
  "closed_collaborators =
     ready_collaborators
       \<lparr>ReferenceMultipleObjectsByHandleArray :=
          (\<lambda>lpHandles nCount. (ERROR_INVALID_HANDLE, lpHandles))\<rparr>"

text \<open>The array that holds the given handles.\<close>

definition handle_array :: "HANDLE list \<Rightarrow> nat \<Rightarrow> HANDLE" where
  "handle_array hs i = (if i < length hs then hs ! i else 0)"

text \<open>A state before a call: no error, one reference on every object, no controller held.\<close>

definition idle_world :: world where
  "idle_world = \<lparr>last_error = NO_ERROR, refcount = (\<lambda>x. 1), controllers_held = 0, calls = []\<rparr>"

section \<open>Properties\<close>

declare pin_objects.simps [simp del] release_references.simps [simp del]
  release_controllers.simps [simp del] precheck.simps [simp del] unsignal.simps [simp del]
  register_thread.simps [simp del]

subsection \<open>Counts as C ints\<close>

lemma sint_count:
  assumes "(nCount :: 32 word) \<le> 64"
  shows "sint nCount = int (unat nCount)"
proof -
  have "uint nCount \<le> 64"
    using assms by (simp add: word_le_def)
  then have hi: "uint nCount < 2 ^ 31"
    by simp
  have "- (2 ^ 31) \<le> (0::int)"
    by simp
  also have "0 \<le> uint nCount"
    by simp
  finally have "- (2 ^ 31) \<le> uint nCount" .
  from this hi have "signed_take_bit 31 (uint nCount) = uint nCount"
    by (rule signed_take_bit_int_eq_self)
  then show ?thesis
    by (simp add: sint_uint)
qed

lemma count_cases:
  fixes nCount :: DWORD
  obtains (bad) "nCount = 0 \<or> 64 < nCount" | (one) "nCount = 1"
    | (many) "1 < nCount" "nCount \<le> 64"
  using linorder_less_linear [of nCount 1] word_less_1 [of nCount]
    linorder_le_less_linear [of nCount 64]
  by blast

subsection \<open>Pinning and releasing the objects\<close>

lemma release_references_calls:
  "calls (release_references objs n i w) = calls w @ map ReleaseRef [i..<n]"
proof (induction objs n i w rule: release_references.induct)
  case (1 objs n i w)
  show ?case
  proof (cases "i < n")
    case True
    with 1 show ?thesis
      by (subst release_references.simps)
        (simp add: ReleaseReference_def log_call_def upt_conv_Cons)
  next
    case False
    then show ?thesis
      by (subst release_references.simps) simp
  qed
qed

lemma release_references_refcount:
  "refcount (release_references objs n i w) x =
     refcount w x - int (length (filter (\<lambda>j. objs j = x) [i..<n]))"
proof (induction objs n i w rule: release_references.induct)
  case (1 objs n i w)
  show ?case
  proof (cases "i < n")
    case True
    with 1 show ?thesis
      by (subst release_references.simps)
        (simp add: ReleaseReference_def log_call_def upt_conv_Cons)
  next
    case False
    then show ?thesis
      by (subst release_references.simps) simp
  qed
qed

lemma release_references_other:
  "last_error (release_references objs n i w) = last_error w \<and>
   controllers_held (release_references objs n i w) = controllers_held w"
proof (induction objs n i w rule: release_references.induct)
  case (1 objs n i w)
  show ?case
  proof (cases "i < n")
    case True
    with 1 show ?thesis
      by (subst (1 2) release_references.simps)
        (simp add: ReleaseReference_def log_call_def)
  next
    case False
    then show ?thesis
      by (subst (1 2) release_references.simps) simp
  qed
qed

lemma pin_objects_refcount:
  "refcount (pin_objects objs n i w) x =
     refcount w x + int (length (filter (\<lambda>j. objs j = x) [i..<n]))"
proof (induction objs n i w rule: pin_objects.induct)
  case (1 objs n i w)
  show ?case
  proof (cases "i < n")
    case True
    with 1 show ?thesis
      by (subst pin_objects.simps) (simp add: upt_conv_Cons)
  next
    case False
    then show ?thesis
      by (subst pin_objects.simps) simp
  qed
qed

lemma pin_objects_other:
  "last_error (pin_objects objs n i w) = last_error w \<and>
   controllers_held (pin_objects objs n i w) = controllers_held w \<and>
   calls (pin_objects objs n i w) = calls w"
proof (induction objs n i w rule: pin_objects.induct)
  case (1 objs n i w)
  show ?case
  proof (cases "i < n")
    case True
    with 1 show ?thesis
      by (subst (1 2 3) pin_objects.simps) simp
  next
    case False
    then show ?thesis
      by (subst (1 2 3) pin_objects.simps) simp
  qed
qed

subsection \<open>The loops over the controllers\<close>

lemma release_controllers_calls:
  "calls (release_controllers n i w) = calls w @ map ReleaseCtrl [i..<n]"
proof (induction n i w rule: release_controllers.induct)
  case (1 n i w)
  show ?case
  proof (cases "i < n")
    case True
    with 1 show ?thesis
      by (subst release_controllers.simps)
        (simp add: ReleaseController_def log_call_def upt_conv_Cons)
  next
    case False
    then show ?thesis
      by (subst release_controllers.simps) simp
  qed
qed

lemma release_controllers_held:
  "controllers_held (release_controllers n i w) = controllers_held w - int (n - i)"
proof (induction n i w rule: release_controllers.induct)
  case (1 n i w)
  show ?case
  proof (cases "i < n")
    case True
    with 1 show ?thesis
      by (subst release_controllers.simps)
        (simp add: ReleaseController_def log_call_def Suc_diff_Suc)
  next
    case False
    then show ?thesis
      by (subst release_controllers.simps) simp
  qed
qed

lemma release_controllers_other:
  "last_error (release_controllers n i w) = last_error w \<and>
   refcount (release_controllers n i w) = refcount w"
proof (induction n i w rule: release_controllers.induct)
  case (1 n i w)
  show ?case
  proof (cases "i < n")
    case True
    with 1 show ?thesis
      by (subst (1 2) release_controllers.simps)
        (simp add: ReleaseController_def log_call_def)
  next
    case False
    then show ?thesis
      by (subst (1 2) release_controllers.simps) simp
  qed
qed

text \<open>
  The pre-check of a wait-any request whose lowest signaled object is \<open>k\<close>: the
  controllers \<open>i\<close> to \<open>k\<close> are asked in this order, the scan stops at \<open>k\<close>, and
  \<open>iSignaledObjIndex\<close> is \<open>k\<close>.
\<close>

lemma scanned_split:
  assumes "i < k"
  shows "(\<exists>j. i \<le> j \<and> j \<le> k \<and> P j) \<longleftrightarrow> P i \<or> (\<exists>j. Suc i \<le> j \<and> j \<le> k \<and> P j)"
proof
  assume "\<exists>j. i \<le> j \<and> j \<le> k \<and> P j"
  then obtain j where j: "i \<le> j" "j \<le> k" "P j"
    by blast
  show "P i \<or> (\<exists>j. Suc i \<le> j \<and> j \<le> k \<and> P j)"
  proof (cases "j = i")
    case True
    with j show ?thesis by simp
  next
    case False
    with j have "Suc i \<le> j" by simp
    with j show ?thesis by blast
  qed
next
  assume "P i \<or> (\<exists>j. Suc i \<le> j \<and> j \<le> k \<and> P j)"
  then show "\<exists>j. i \<le> j \<and> j \<le> k \<and> P j"
  proof
    assume "P i"
    with assms show ?thesis
      by (intro exI [of _ i]) simp
  next
    assume "\<exists>j. Suc i \<le> j \<and> j \<le> k \<and> P j"
    then obtain j where "Suc i \<le> j" "j \<le> k" "P j"
      by blast
    then show ?thesis
      by (intro exI [of _ j]) simp
  qed
qed

lemma precheck_wait_any:
  assumes "i \<le> k" and "k < n"
    and "\<forall>j. i \<le> j \<and> j < k \<longrightarrow>
           fst (CanThreadWaitWithoutBlocking c j) = NO_ERROR \<and>
           \<not> fst (snd (CanThreadWaitWithoutBlocking c j))"
    and "fst (CanThreadWaitWithoutBlocking c k) = NO_ERROR"
    and "fst (snd (CanThreadWaitWithoutBlocking c k))"
  shows "precheck c False n i (fAbandoned, cnt, idx) w
           = (NO_ERROR,
              (fAbandoned \<or> (\<exists>j. i \<le> j \<and> j \<le> k \<and> snd (snd (CanThreadWaitWithoutBlocking c j))),
               cnt + 1, int k),
              w\<lparr>calls := calls w @ map CanWait [i..<Suc k]\<rparr>)"
  using assms
proof (induction "k - i" arbitrary: i fAbandoned w)
  case 0
  then have ik: "i = k"
    by simp
  obtain e v a where ch: "CanThreadWaitWithoutBlocking c k = (e, v, a)"
    by (cases "CanThreadWaitWithoutBlocking c k") auto
  with 0 have ev: "e = NO_ERROR" "v"
    by simp_all
  have "(\<exists>j. k \<le> j \<and> j \<le> k \<and> snd (snd (CanThreadWaitWithoutBlocking c j))) \<longleftrightarrow> a"
    using ch by (auto simp: order_class.order_eq_iff [symmetric] dest: le_antisym)
  with ch ev 0 ik show ?case
    by (subst precheck.simps) (auto simp: log_call_def)
next
  case (Suc d)
  then have lt: "i < k"
    by simp
  obtain e v a where ch: "CanThreadWaitWithoutBlocking c i = (e, v, a)"
    by (cases "CanThreadWaitWithoutBlocking c i") auto
  with Suc.prems lt have ev: "e = NO_ERROR" "\<not> v"
    by (metis fst_conv order_refl, metis fst_conv snd_conv order_refl)
  have d: "d = k - Suc i"
    using Suc.hyps by simp
  have le: "Suc i \<le> k"
    using lt by simp
  have all: "\<forall>j. Suc i \<le> j \<and> j < k \<longrightarrow>
           fst (CanThreadWaitWithoutBlocking c j) = NO_ERROR \<and>
           \<not> fst (snd (CanThreadWaitWithoutBlocking c j))"
    using Suc.prems(3) by simp
  note ih = Suc.hyps(1) [OF d le Suc.prems(2) all Suc.prems(4) Suc.prems(5),
      of "if a then True else fAbandoned" "log_call (CanWait i) w"]
  have sp: "(\<exists>j. i \<le> j \<and> j \<le> k \<and> snd (snd (CanThreadWaitWithoutBlocking c j)))
            \<longleftrightarrow> a \<or> (\<exists>j. Suc i \<le> j \<and> j \<le> k \<and> snd (snd (CanThreadWaitWithoutBlocking c j)))"
    using scanned_split [OF lt, of "\<lambda>j. snd (snd (CanThreadWaitWithoutBlocking c j))"] ch
    by simp
  have step: "precheck c False n i (fAbandoned, cnt, idx) w
                = precheck c False n (Suc i) (if a then True else fAbandoned, cnt, idx)
                    (log_call (CanWait i) w)"
    using ch ev lt Suc.prems(2) by (subst precheck.simps) simp
  show ?case
    unfolding step ih
    using lt by (auto simp: sp log_call_def upt_conv_Cons)
qed

lemma unsignal_one:
  "unsignal c k (Suc k) w =
     (if ReleaseWaitingThreadWithoutBlocking c k \<noteq> NO_ERROR
      then (ReleaseWaitingThreadWithoutBlocking c k,
            SetLastError (ReleaseWaitingThreadWithoutBlocking c k) (log_call (ReleaseWaiting k) w))
      else (NO_ERROR, log_call (ReleaseWaiting k) w))"
  by (subst unsignal.simps, subst unsignal.simps) (simp add: Let_def)




subsection \<open>One object\<close>

text \<open>
  With \<open>nCount = 1\<close> every loop runs once.
\<close>

lemma precheck_single:
  "precheck c fWAll (Suc 0) 0 (fa, cnt, idx) w =
     (case CanThreadWaitWithoutBlocking c 0 of
        (palErr, fValue, fWaitObjectAbandoned) \<Rightarrow>
          if palErr \<noteq> NO_ERROR
          then (palErr, (fa, cnt, idx), SetLastError ERROR_INTERNAL_ERROR (log_call (CanWait 0) w))
          else if fValue
          then (NO_ERROR, (if fWaitObjectAbandoned then True else fa, cnt + 1, 0),
                log_call (CanWait 0) w)
          else (NO_ERROR, (if fWaitObjectAbandoned then True else fa, cnt, idx),
                log_call (CanWait 0) w))"
  by (subst precheck.simps, subst precheck.simps, subst precheck.simps)
    (simp add: Let_def split: prod.splits)

lemma register_thread_single:
  "register_thread c wt fa fp (Suc 0) 0 w =
     (if RegisterWaitingThread c 0 wt fa fp \<noteq> NO_ERROR
      then (RegisterWaitingThread c 0 wt fa fp,
            SetLastError (RegisterWaitingThread c 0 wt fa fp)
              (log_call (RegisterWaiting 0 wt fa fp) w))
      else (NO_ERROR, log_call (RegisterWaiting 0 wt fa fp) w))"
  by (subst register_thread.simps, subst register_thread.simps) (simp add: Let_def)

lemma release_controllers_single:
  "release_controllers (Suc 0) 0 w = ReleaseController 0 w"
  by (subst release_controllers.simps, subst release_controllers.simps) simp

lemma release_references_single:
  "release_references objs (Suc 0) 0 w = ReleaseReference objs 0 w"
  by (subst release_references.simps, subst release_references.simps) simp

lemma pin_objects_single:
  "pin_objects objs (Suc 0) 0 w =
     w\<lparr>refcount := (refcount w)(objs 0 := refcount w (objs 0) + 1)\<rparr>"
  by (subst pin_objects.simps, subst pin_objects.simps) simp

lemmas single_object_simps =
  InternalWaitForMultipleObjectsEx_def wait_for_objects_def WFMOExIntReleaseControllers_def
  block_and_map_def add_signaled_index_def WFMOExIntCleanup_def WFMOExIntExit_def
  InternalDeleteArray_def has_duplicate_def
  precheck_single register_thread_single release_controllers_single
  release_references_single pin_objects_single unsignal_one
  ReleaseController_def ReleaseReference_def obtain_controllers_def
  SetLastError_def log_call_def Let_def

lemmas constant_defs =
  MAXIMUM_WAIT_OBJECTS_def MAXIMUM_STACK_WAITOBJ_ARRAY_SIZE_def
  WAIT_OBJECT_0_def WAIT_ABANDONED_0_def WAIT_TIMEOUT_def WAIT_FAILED_def NO_ERROR_def
  FALSE_def TRUE_def ERROR_INVALID_HANDLE_def ERROR_NOT_ENOUGH_MEMORY_def
  ERROR_NOT_SUPPORTED_def ERROR_INVALID_PARAMETER_def ERROR_INTERNAL_ERROR_def

lemmas example_defs = ready_collaborators_def busy_collaborators_def late_collaborators_def
  woken_collaborators_def abandoned_collaborators_def stale_collaborators_def
  closed_collaborators_def handle_array_def idle_world_def

subsection \<open>Validation of the count\<close>

text \<open>
  C2. A request whose count is 0 or greater than 64 returns \<open>WAIT_FAILED\<close>; the state
  after the call is the state before it with the last error set to
  \<open>ERROR_INVALID_PARAMETER\<close>: no handle is resolved, the reference counts and the
  number of controllers are untouched, and no collaborator is called.
\<close>

theorem count_out_of_range:
  assumes "nCount = 0 \<or> nCount > 64"
  shows "InternalWaitForMultipleObjectsEx c w nCount lpHandles bWaitAll dwMilliseconds
           bAlertable bPrioritize
         = (WAIT_FAILED, w\<lparr>last_error := ERROR_INVALID_PARAMETER\<rparr>)"
  using assms
  by (auto simp: InternalWaitForMultipleObjectsEx_def MAXIMUM_WAIT_OBJECTS_def
      MAXIMUM_STACK_WAITOBJ_ARRAY_SIZE_def WFMOExIntExit_def InternalDeleteArray_def
      SetLastError_def)

theorem count_out_of_range_witness:
  "((65 :: DWORD) = 0 \<or> (65 :: DWORD) > 64) \<and>
   InternalWaitForMultipleObjectsEx ready_collaborators idle_world 65 (handle_array [7]) FALSE 0
       FALSE FALSE
     = (WAIT_FAILED, idle_world\<lparr>last_error := ERROR_INVALID_PARAMETER\<rparr>)"
proof -
  have h: "(65 :: DWORD) = 0 \<or> (65 :: DWORD) > 64"
    by simp
  show ?thesis
    using h count_out_of_range [OF h, where c = ready_collaborators and w = idle_world
        and lpHandles = "handle_array [7]" and bWaitAll = FALSE and dwMilliseconds = 0
        and bAlertable = FALSE and bPrioritize = FALSE]
    by simp
qed

subsection \<open>More than one object\<close>

text \<open>
  C1. A request with count above 1 whose handles have all been resolved (the count is at
  most 64, the heap arrays were allocated when the count is above 16, and the object
  manager reported no error) returns \<open>WAIT_FAILED\<close> with last error
  \<open>ERROR_NOT_SUPPORTED\<close>, whatever the wait-all flag and whatever the controllers would
  answer. The only calls are the allocation, the resolution, one release per pinned
  object and the deallocation: no controller is obtained, nothing is checked, consumed
  or registered, and the thread does not block. The reference counts are back at their
  values before the call.
\<close>

theorem multiple_objects_not_supported:
  assumes gt1: "1 < nCount" and le: "nCount \<le> 64"
    and alloc: "16 < nCount \<longrightarrow> InternalNewArray_objs c \<and> InternalNewArray_ctrls c"
    and resolved: "ReferenceMultipleObjectsByHandleArray c lpHandles nCount = (NO_ERROR, objs)"
  shows "case InternalWaitForMultipleObjectsEx c w nCount lpHandles bWaitAll dwMilliseconds
                bAlertable bPrioritize of
           (dwRet, w') \<Rightarrow>
             dwRet = WAIT_FAILED \<and> last_error w' = ERROR_NOT_SUPPORTED \<and>
             calls w' = calls w @ (if 16 < nCount then [NewArray, NewArray] else [])
                          @ [ReferenceObjects nCount] @ map ReleaseRef [0..<unat nCount]
                          @ (if 16 < nCount then [DeleteArray, DeleteArray] else []) \<and>
             controllers_held w' = controllers_held w \<and>
             refcount w' = refcount w"
proof -
  have n0: "nCount \<noteq> 0" and n1: "nCount \<noteq> 1"
    using gt1 by auto
  have n64: "\<not> 64 < nCount"
    using le by simp
  have s: "nat (sint nCount) = unat nCount"
    using sint_count [OF le] by simp
  show ?thesis
    using n0 n1 n64 gt1 alloc resolved
    by (auto simp: InternalWaitForMultipleObjectsEx_def MAXIMUM_WAIT_OBJECTS_def
        MAXIMUM_STACK_WAITOBJ_ARRAY_SIZE_def WFMOExIntCleanup_def WFMOExIntExit_def
        InternalDeleteArray_def SetLastError_def log_call_def s
        release_references_calls release_references_other release_references_refcount
        pin_objects_refcount pin_objects_other Let_def)
qed

theorem multiple_objects_not_supported_witness:
  "(1 :: DWORD) < 2 \<and> (2 :: DWORD) \<le> 64 \<and>
   ReferenceMultipleObjectsByHandleArray ready_collaborators (handle_array [7, 8]) 2
     = (NO_ERROR, handle_array [7, 8]) \<and>
   (case InternalWaitForMultipleObjectsEx ready_collaborators idle_world 2 (handle_array [7, 8])
           TRUE 0 FALSE FALSE of
      (dwRet, w') \<Rightarrow>
        dwRet = WAIT_FAILED \<and> last_error w' = ERROR_NOT_SUPPORTED \<and>
        calls w' = [ReferenceObjects 2, ReleaseRef 0, ReleaseRef 1] \<and>
        controllers_held w' = 0 \<and> refcount w' = refcount idle_world)"
proof -
  have r: "ReferenceMultipleObjectsByHandleArray ready_collaborators (handle_array [7, 8]) 2
             = (NO_ERROR, handle_array [7, 8])"
    by (simp add: ready_collaborators_def)
  have a: "(16 :: DWORD) < 2 \<longrightarrow>
             InternalNewArray_objs ready_collaborators \<and> InternalNewArray_ctrls ready_collaborators"
    by simp
  have u: "[0..<2] = [0, Suc 0]"
    by (simp add: numeral_2_eq_2)
  show ?thesis
    using r multiple_objects_not_supported [OF _ _ a r, where w = idle_world
        and bWaitAll = TRUE and dwMilliseconds = 0 and bAlertable = FALSE
        and bPrioritize = FALSE]
    by (simp add: u idle_world_def split: prod.splits)
qed

subsection \<open>One object and the wait-all flag\<close>

text \<open>
  C8. With count 1 the value of the wait-all flag has no effect: two calls that differ
  only in \<open>bWaitAll\<close> return the same result and leave the same state (last error,
  reference counts, controllers, and the calls made, with their arguments).
\<close>

theorem single_object_wait_all_irrelevant:
  "InternalWaitForMultipleObjectsEx c w 1 lpHandles bWaitAll dwMilliseconds bAlertable bPrioritize
   = InternalWaitForMultipleObjectsEx c w 1 lpHandles bWaitAll' dwMilliseconds bAlertable
       bPrioritize"
  by (simp add: InternalWaitForMultipleObjectsEx_def)

theorem single_object_wait_all_irrelevant_witness:
  "InternalWaitForMultipleObjectsEx ready_collaborators idle_world 1 (handle_array [7]) TRUE 0
     FALSE FALSE
   = InternalWaitForMultipleObjectsEx ready_collaborators idle_world 1 (handle_array [7]) FALSE 0
       FALSE FALSE"
  using single_object_wait_all_irrelevant
    [where c = ready_collaborators and w = idle_world and lpHandles = "handle_array [7]"
      and bWaitAll = TRUE and bWaitAll' = FALSE and dwMilliseconds = 0 and bAlertable = FALSE
      and bPrioritize = FALSE]
  by simp

subsection \<open>The pre-check and the fast path\<close>

text \<open>
  With count 1 and a handle that resolves, the function runs the part after the gate as
  a wait-any request (\<open>fWAll\<close> false, whatever \<open>bWaitAll\<close> is) on the pinned object
  and then cleans up.
\<close>

lemma single_object_is_wait_any:
  assumes "ReferenceMultipleObjectsByHandleArray c lpHandles 1 = (NO_ERROR, objs)"
  shows "InternalWaitForMultipleObjectsEx c w 1 lpHandles bWaitAll dwMilliseconds bAlertable
           bPrioritize
         = (case wait_for_objects c 1 objs False SingleObject dwMilliseconds bAlertable
                   bPrioritize (pin_objects objs 1 0 (log_call (ReferenceObjects 1) w)) of
              (dwRet, w3) \<Rightarrow> (dwRet, WFMOExIntCleanup 1 objs False w3))"
  using assms
  by (simp add: InternalWaitForMultipleObjectsEx_def MAXIMUM_WAIT_OBJECTS_def)

text \<open>
  The fast path of a wait-any request in the part of the function after the gate, for
  every count up to 64: object \<open>k\<close> is signaled and every object before it answers
  without error that it is not signaled. The pre-check asks the controllers 0 to \<open>k\<close>
  in index order and no later one, only the controller of object \<open>k\<close> is asked to
  consume the signal, and the abandoned qualifier is set by every object that was
  scanned.
\<close>

lemma wait_any_fast_path:
  assumes le: "nCount \<le> 64"
    and ctrls: "GetSynchWaitControllersForObjects c objs nCount = NO_ERROR"
    and na: "bAlertable = 0"
    and k: "k < unat nCount"
    and before: "\<forall>j<k. fst (CanThreadWaitWithoutBlocking c j) = NO_ERROR \<and>
                   \<not> fst (snd (CanThreadWaitWithoutBlocking c j))"
    and at: "fst (CanThreadWaitWithoutBlocking c k) = NO_ERROR \<and>
             fst (snd (CanThreadWaitWithoutBlocking c k))"
  shows "calls (snd (wait_for_objects c nCount objs False wtWaitType dwMilliseconds bAlertable
                       bPrioritize w))
         = calls w @ [GetControllers nCount] @ map CanWait [0..<Suc k]
             @ [ReleaseWaiting k] @ map ReleaseCtrl [0..<unat nCount]"
    and "fst (wait_for_objects c nCount objs False wtWaitType dwMilliseconds bAlertable
                bPrioritize w)
         = (if ReleaseWaitingThreadWithoutBlocking c k = NO_ERROR
            then (if \<exists>j. j \<le> k \<and> snd (snd (CanThreadWaitWithoutBlocking c j))
                  then WAIT_ABANDONED_0 else WAIT_OBJECT_0) + of_nat k
            else WAIT_FAILED)"
proof -
  have s: "nat (sint nCount) = unat nCount"
    using sint_count [OF le] by simp
  let ?w2 = "obtain_controllers (unat nCount) (log_call (GetControllers nCount) w)"
  have all: "\<forall>j. 0 \<le> j \<and> j < k \<longrightarrow>
           fst (CanThreadWaitWithoutBlocking c j) = NO_ERROR \<and>
           \<not> fst (snd (CanThreadWaitWithoutBlocking c j))"
    using before by simp
  have pc: "precheck c False (unat nCount) 0 (False, 0, -1) ?w2
      = (NO_ERROR,
         (\<exists>j. j \<le> k \<and> snd (snd (CanThreadWaitWithoutBlocking c j)), 1, int k),
         ?w2\<lparr>calls := calls ?w2 @ map CanWait [0..<Suc k]\<rparr>)"
    using precheck_wait_any [OF _ k all conjunct1 [OF at] conjunct2 [OF at],
        where fAbandoned = False and cnt = 0 and idx = "-1" and w = ?w2]
    by simp
  have nk: "nat (int k + 1) = Suc k"
    by simp
  show "calls (snd (wait_for_objects c nCount objs False wtWaitType dwMilliseconds bAlertable
                      bPrioritize w))
        = calls w @ [GetControllers nCount] @ map CanWait [0..<Suc k]
            @ [ReleaseWaiting k] @ map ReleaseCtrl [0..<unat nCount]"
    apply (simp only: wait_for_objects_def s Let_def ctrls na pc simp_thms if_False if_True
        prod.case nk nat_int of_nat_less_0_iff)
    apply (simp add: unsignal_one WFMOExIntReleaseControllers_def s
        block_and_map_def add_signaled_index_def release_controllers_calls
        obtain_controllers_def log_call_def SetLastError_def
        WAIT_OBJECT_0_def WAIT_ABANDONED_0_def WAIT_FAILED_def NO_ERROR_def)
    done
  show "fst (wait_for_objects c nCount objs False wtWaitType dwMilliseconds bAlertable
               bPrioritize w)
        = (if ReleaseWaitingThreadWithoutBlocking c k = NO_ERROR
           then (if \<exists>j. j \<le> k \<and> snd (snd (CanThreadWaitWithoutBlocking c j))
                 then WAIT_ABANDONED_0 else WAIT_OBJECT_0) + of_nat k
           else WAIT_FAILED)"
    apply (simp only: wait_for_objects_def s Let_def ctrls na pc simp_thms if_False if_True
        prod.case nk nat_int of_nat_less_0_iff)
    apply (simp add: unsignal_one WFMOExIntReleaseControllers_def s
        block_and_map_def add_signaled_index_def
        WAIT_OBJECT_0_def WAIT_ABANDONED_0_def WAIT_FAILED_def NO_ERROR_def)
    done
qed


text \<open>
  The fast path of the function itself: count 1, the handle resolves, the controller is
  obtained, the request is not alertable and the controller of object 0 answers without
  error that the object is signaled.
\<close>

lemma single_object_fast_path:
  assumes resolved: "ReferenceMultipleObjectsByHandleArray c lpHandles 1 = (NO_ERROR, objs)"
    and ctrls: "GetSynchWaitControllersForObjects c objs 1 = NO_ERROR"
    and na: "bAlertable = 0"
    and ready: "fst (CanThreadWaitWithoutBlocking c 0) = NO_ERROR \<and>
                fst (snd (CanThreadWaitWithoutBlocking c 0))"
  shows "calls (snd (InternalWaitForMultipleObjectsEx c w 1 lpHandles bWaitAll dwMilliseconds
                       bAlertable bPrioritize))
         = calls w @ [ReferenceObjects 1, GetControllers 1, CanWait 0, ReleaseWaiting 0,
                      ReleaseCtrl 0, ReleaseRef 0]"
    and "fst (InternalWaitForMultipleObjectsEx c w 1 lpHandles bWaitAll dwMilliseconds
                bAlertable bPrioritize)
         = (if ReleaseWaitingThreadWithoutBlocking c 0 = NO_ERROR
            then (if snd (snd (CanThreadWaitWithoutBlocking c 0))
                  then WAIT_ABANDONED_0 else WAIT_OBJECT_0)
            else WAIT_FAILED)"
  using assms
  by (cases "CanThreadWaitWithoutBlocking c 0";
      auto simp: single_object_simps constant_defs)+

text \<open>
  C6. For a wait-any request in which object \<open>k\<close> is signaled at pre-check time and
  every object before it answers without error that it is not signaled, so that \<open>k\<close>
  is the lowest signaled index: the pre-check asks the controllers 0 to \<open>k\<close> in index
  order and stops there, only the controller of object \<open>k\<close> is asked to consume the
  signal, and when it does the result is \<open>WAIT_OBJECT_0 + k\<close> or
  \<open>WAIT_ABANDONED_0 + k\<close>. The first half of the statement is about
  \<open>InternalWaitForMultipleObjectsEx\<close>, whose pre-check runs only for count 1 (a larger
  count ends at the gate of lines 138-143); the second half is about the code of lines
  145-343 as it is written, for every count up to 64.
\<close>

theorem wait_any_first_signaled:
  assumes le: "nCount \<le> 64"
    and ctrls: "GetSynchWaitControllersForObjects c objs nCount = NO_ERROR"
    and na: "bAlertable = 0"
    and k: "k < unat nCount"
    and before: "\<forall>j<k. fst (CanThreadWaitWithoutBlocking c j) = NO_ERROR \<and>
                   \<not> fst (snd (CanThreadWaitWithoutBlocking c j))"
    and at: "fst (CanThreadWaitWithoutBlocking c k) = NO_ERROR \<and>
             fst (snd (CanThreadWaitWithoutBlocking c k))"
  shows "(nCount = 1 \<and>
          ReferenceMultipleObjectsByHandleArray c lpHandles nCount = (NO_ERROR, objs) \<longrightarrow>
            (case InternalWaitForMultipleObjectsEx c w nCount lpHandles bWaitAll dwMilliseconds
                    bAlertable bPrioritize of
               (dwRet, w') \<Rightarrow>
                 calls w' = calls w @ [ReferenceObjects nCount, GetControllers nCount]
                              @ map CanWait [0..<Suc k] @ [ReleaseWaiting k]
                              @ map ReleaseCtrl [0..<unat nCount]
                              @ map ReleaseRef [0..<unat nCount] \<and>
                 (if ReleaseWaitingThreadWithoutBlocking c k = NO_ERROR
                  then dwRet = WAIT_OBJECT_0 + of_nat k \<or> dwRet = WAIT_ABANDONED_0 + of_nat k
                  else dwRet = WAIT_FAILED))) \<and>
         (case wait_for_objects c nCount objs False wtWaitType dwMilliseconds bAlertable
                 bPrioritize w of
            (dwRet, w') \<Rightarrow>
              calls w' = calls w @ [GetControllers nCount] @ map CanWait [0..<Suc k]
                           @ [ReleaseWaiting k] @ map ReleaseCtrl [0..<unat nCount] \<and>
              (if ReleaseWaitingThreadWithoutBlocking c k = NO_ERROR
               then dwRet = WAIT_OBJECT_0 + of_nat k \<or> dwRet = WAIT_ABANDONED_0 + of_nat k
               else dwRet = WAIT_FAILED))"
proof (intro conjI impI)
  assume one: "nCount = 1 \<and>
    ReferenceMultipleObjectsByHandleArray c lpHandles nCount = (NO_ERROR, objs)"
  then have n: "nCount = 1"
    and resolved: "ReferenceMultipleObjectsByHandleArray c lpHandles 1 = (NO_ERROR, objs)"
    by auto
  from k n have k0: "k = 0"
    by simp
  have ctrls1: "GetSynchWaitControllersForObjects c objs 1 = NO_ERROR"
    using ctrls n by simp
  have ready: "fst (CanThreadWaitWithoutBlocking c 0) = NO_ERROR \<and>
               fst (snd (CanThreadWaitWithoutBlocking c 0))"
    using at k0 by simp
  show "case InternalWaitForMultipleObjectsEx c w nCount lpHandles bWaitAll dwMilliseconds
               bAlertable bPrioritize of
          (dwRet, w') \<Rightarrow>
            calls w' = calls w @ [ReferenceObjects nCount, GetControllers nCount]
                         @ map CanWait [0..<Suc k] @ [ReleaseWaiting k]
                         @ map ReleaseCtrl [0..<unat nCount]
                         @ map ReleaseRef [0..<unat nCount] \<and>
            (if ReleaseWaitingThreadWithoutBlocking c k = NO_ERROR
             then dwRet = WAIT_OBJECT_0 + of_nat k \<or> dwRet = WAIT_ABANDONED_0 + of_nat k
             else dwRet = WAIT_FAILED)"
    using single_object_fast_path [OF resolved ctrls1 na ready, where w = w
        and bWaitAll = bWaitAll and dwMilliseconds = dwMilliseconds
        and bPrioritize = bPrioritize]
    by (auto simp: case_prod_beta n k0 split: if_splits)
next
  show "case wait_for_objects c nCount objs False wtWaitType dwMilliseconds bAlertable
               bPrioritize w of
          (dwRet, w') \<Rightarrow>
            calls w' = calls w @ [GetControllers nCount] @ map CanWait [0..<Suc k]
                         @ [ReleaseWaiting k] @ map ReleaseCtrl [0..<unat nCount] \<and>
            (if ReleaseWaitingThreadWithoutBlocking c k = NO_ERROR
             then dwRet = WAIT_OBJECT_0 + of_nat k \<or> dwRet = WAIT_ABANDONED_0 + of_nat k
             else dwRet = WAIT_FAILED)"
    using wait_any_fast_path [OF le ctrls na k before at, where w = w
        and wtWaitType = wtWaitType and dwMilliseconds = dwMilliseconds
        and bPrioritize = bPrioritize]
    by (auto simp: case_prod_beta split: if_splits)
qed

theorem wait_any_first_signaled_witness:
  "(1 :: DWORD) \<le> 64 \<and> 0 < unat (1 :: DWORD) \<and>
   ReferenceMultipleObjectsByHandleArray ready_collaborators (handle_array [7]) 1
     = (NO_ERROR, handle_array [7]) \<and>
   fst (snd (CanThreadWaitWithoutBlocking ready_collaborators 0)) \<and>
   calls (snd (InternalWaitForMultipleObjectsEx ready_collaborators idle_world 1
                 (handle_array [7]) FALSE 0 FALSE FALSE))
     = [ReferenceObjects 1, GetControllers 1, CanWait 0, ReleaseWaiting 0,
        ReleaseCtrl 0, ReleaseRef 0] \<and>
   (fst (InternalWaitForMultipleObjectsEx ready_collaborators idle_world 1
           (handle_array [7]) FALSE 0 FALSE FALSE) = WAIT_OBJECT_0 + 0 \<or>
    fst (InternalWaitForMultipleObjectsEx ready_collaborators idle_world 1
           (handle_array [7]) FALSE 0 FALSE FALSE) = WAIT_ABANDONED_0 + 0) \<and>
   (3 :: DWORD) \<le> 64 \<and> 1 < unat (3 :: DWORD) \<and>
   \<not> fst (snd (CanThreadWaitWithoutBlocking late_collaborators 0)) \<and>
   fst (snd (CanThreadWaitWithoutBlocking late_collaborators 1)) \<and>
   fst (snd (CanThreadWaitWithoutBlocking late_collaborators 2)) \<and>
   calls (snd (wait_for_objects late_collaborators 3 (handle_array [7, 8, 9]) False
                 MultipleObjectsWaitOne 0 FALSE FALSE idle_world))
     = [GetControllers 3, CanWait 0, CanWait 1, ReleaseWaiting 1,
        ReleaseCtrl 0, ReleaseCtrl 1, ReleaseCtrl 2] \<and>
   (fst (wait_for_objects late_collaborators 3 (handle_array [7, 8, 9]) False
           MultipleObjectsWaitOne 0 FALSE FALSE idle_world) = WAIT_OBJECT_0 + 1 \<or>
    fst (wait_for_objects late_collaborators 3 (handle_array [7, 8, 9]) False
           MultipleObjectsWaitOne 0 FALSE FALSE idle_world) = WAIT_ABANDONED_0 + 1)"
proof -
  have na: "FALSE = 0"
    by (simp add: FALSE_def)
  have le1: "(1 :: DWORD) \<le> 64"
    by simp
  have ctrls1: "GetSynchWaitControllersForObjects ready_collaborators (handle_array [7]) 1
                  = NO_ERROR"
    by (simp add: example_defs)
  have k1: "0 < unat (1 :: DWORD)"
    by simp
  have before1: "\<forall>j<0. fst (CanThreadWaitWithoutBlocking ready_collaborators j) = NO_ERROR \<and>
                   \<not> fst (snd (CanThreadWaitWithoutBlocking ready_collaborators j))"
    by simp
  have at1: "fst (CanThreadWaitWithoutBlocking ready_collaborators 0) = NO_ERROR \<and>
             fst (snd (CanThreadWaitWithoutBlocking ready_collaborators 0))"
    by (simp add: example_defs)
  have resolved1: "ReferenceMultipleObjectsByHandleArray ready_collaborators (handle_array [7]) 1
                     = (NO_ERROR, handle_array [7])"
    by (simp add: example_defs)
  have consumed1: "ReleaseWaitingThreadWithoutBlocking ready_collaborators 0 = NO_ERROR"
    by (simp add: example_defs)
  have u1: "[0..<Suc 0] = [0]" "unat (1 :: DWORD) = Suc 0"
    by simp_all
  have part1:
    "calls (snd (InternalWaitForMultipleObjectsEx ready_collaborators idle_world 1
                   (handle_array [7]) FALSE 0 FALSE FALSE))
       = [ReferenceObjects 1, GetControllers 1, CanWait 0, ReleaseWaiting 0,
          ReleaseCtrl 0, ReleaseRef 0] \<and>
     (fst (InternalWaitForMultipleObjectsEx ready_collaborators idle_world 1
             (handle_array [7]) FALSE 0 FALSE FALSE) = WAIT_OBJECT_0 + 0 \<or>
      fst (InternalWaitForMultipleObjectsEx ready_collaborators idle_world 1
             (handle_array [7]) FALSE 0 FALSE FALSE) = WAIT_ABANDONED_0 + 0)"
    using resolved1 consumed1
      wait_any_first_signaled [OF le1 ctrls1 na k1 before1 at1,
        where lpHandles = "handle_array [7]" and w = idle_world and bWaitAll = FALSE
          and dwMilliseconds = 0 and bPrioritize = FALSE, THEN conjunct1]
    by (simp add: case_prod_beta u1 idle_world_def)
  have le3: "(3 :: DWORD) \<le> 64"
    by simp
  have ctrls3: "GetSynchWaitControllersForObjects late_collaborators (handle_array [7, 8, 9]) 3
                  = NO_ERROR"
    by (simp add: example_defs)
  have k3: "1 < unat (3 :: DWORD)"
    by simp
  have before3: "\<forall>j<1. fst (CanThreadWaitWithoutBlocking late_collaborators j) = NO_ERROR \<and>
                   \<not> fst (snd (CanThreadWaitWithoutBlocking late_collaborators j))"
    by (simp add: example_defs)
  have at3: "fst (CanThreadWaitWithoutBlocking late_collaborators 1) = NO_ERROR \<and>
             fst (snd (CanThreadWaitWithoutBlocking late_collaborators 1))"
    by (simp add: example_defs)
  have at3': "fst (snd (CanThreadWaitWithoutBlocking late_collaborators 2))"
    and not3: "\<not> fst (snd (CanThreadWaitWithoutBlocking late_collaborators 0))"
    by (simp_all add: example_defs)
  have consumed3: "ReleaseWaitingThreadWithoutBlocking late_collaborators 1 = NO_ERROR"
    by (simp add: example_defs)
  have u3: "[0..<3] = [0, 1, 2]" "[0..<Suc 1] = [0, 1]"
    by (simp_all add: upt_conv_Cons)
  have part3:
    "calls (snd (wait_for_objects late_collaborators 3 (handle_array [7, 8, 9]) False
                   MultipleObjectsWaitOne 0 FALSE FALSE idle_world))
       = [GetControllers 3, CanWait 0, CanWait 1, ReleaseWaiting 1,
          ReleaseCtrl 0, ReleaseCtrl 1, ReleaseCtrl 2] \<and>
     (fst (wait_for_objects late_collaborators 3 (handle_array [7, 8, 9]) False
             MultipleObjectsWaitOne 0 FALSE FALSE idle_world) = WAIT_OBJECT_0 + 1 \<or>
      fst (wait_for_objects late_collaborators 3 (handle_array [7, 8, 9]) False
             MultipleObjectsWaitOne 0 FALSE FALSE idle_world) = WAIT_ABANDONED_0 + 1)"
    using consumed3
      wait_any_first_signaled [OF le3 ctrls3 na k3 before3 at3,
        where wtWaitType = MultipleObjectsWaitOne and dwMilliseconds = 0
          and bPrioritize = FALSE and w = idle_world, THEN conjunct2]
    by (simp add: case_prod_beta u3 idle_world_def)
  show ?thesis
    using le1 k1 resolved1 at1 part1 le3 k3 not3 at3 at3' part3
    by simp
qed

subsection \<open>Zero timeout\<close>

text \<open>
  C5. The pre-check runs only for count 1 (a larger count stops at the gate), after the
  handle is resolved and the controller obtained, for a request that is not alertable.
  When the controller then answers that the object is not signaled, blocking is
  necessary; with timeout zero the call returns \<open>WAIT_TIMEOUT\<close>. The state after the
  call is the state before it with five calls added to the log: the resolution, the
  controller, the check, the release of the controller and the release of the
  reference. Nothing is consumed or registered and \<open>BlockThread\<close> is not called; last
  error, reference counts and controllers are as before, so a repeated call does the
  same again.
\<close>

theorem zero_timeout_never_blocks:
  assumes resolved: "ReferenceMultipleObjectsByHandleArray c lpHandles 1 = (NO_ERROR, objs)"
    and ctrls: "GetSynchWaitControllersForObjects c objs 1 = NO_ERROR"
    and na: "bAlertable = 0"
    and busy: "CanThreadWaitWithoutBlocking c 0 = (NO_ERROR, False, ab)"
  shows "InternalWaitForMultipleObjectsEx c w 1 lpHandles bWaitAll 0 bAlertable bPrioritize
         = (WAIT_TIMEOUT,
            w\<lparr>calls := calls w @ [ReferenceObjects 1, GetControllers 1, CanWait 0,
                                   ReleaseCtrl 0, ReleaseRef 0]\<rparr>)"
  using assms
  by (simp add: single_object_simps constant_defs)

theorem zero_timeout_never_blocks_witness:
  "ReferenceMultipleObjectsByHandleArray busy_collaborators (handle_array [7]) 1
     = (NO_ERROR, handle_array [7]) \<and>
   CanThreadWaitWithoutBlocking busy_collaborators 0 = (NO_ERROR, False, False) \<and>
   InternalWaitForMultipleObjectsEx busy_collaborators idle_world 1 (handle_array [7]) FALSE 0
       FALSE FALSE
     = (WAIT_TIMEOUT,
        idle_world\<lparr>calls := [ReferenceObjects 1, GetControllers 1, CanWait 0,
                              ReleaseCtrl 0, ReleaseRef 0]\<rparr>)"
proof -
  have resolved: "ReferenceMultipleObjectsByHandleArray busy_collaborators (handle_array [7]) 1
                    = (NO_ERROR, handle_array [7])"
    by (simp add: example_defs)
  have ctrls: "GetSynchWaitControllersForObjects busy_collaborators (handle_array [7]) 1
                 = NO_ERROR"
    by (simp add: example_defs)
  have na: "FALSE = 0"
    by (simp add: FALSE_def)
  have busy: "CanThreadWaitWithoutBlocking busy_collaborators 0 = (NO_ERROR, False, False)"
    by (simp add: example_defs)
  show ?thesis
    using resolved busy
      zero_timeout_never_blocks [OF resolved ctrls na busy,
        where w = idle_world and bWaitAll = FALSE and bPrioritize = FALSE]
    by (simp add: idle_world_def)
qed

subsection \<open>The abandoned qualifier on the fast path\<close>





subsection \<open>Alertable waits\<close>

text \<open>
  C4, as the claim states it, fails. With count 1 and a handle that resolves, an
  alertable request is rejected with \<open>ERROR_INTERNAL_ERROR\<close> only after
  \<open>GetSynchWaitControllersForObjects\<close> was called: line 165 comes before the check of
  line 175. And an alertable request does not always end with an internal error: with
  count 2 and handles that resolve it ends at the gate of lines 138-143 with
  \<open>ERROR_NOT_SUPPORTED\<close>, and with count 1 and a handle that does not resolve it ends
  at lines 127-136 with \<open>ERROR_INVALID_HANDLE\<close>.
\<close>

theorem alertable_checked_after_controllers_counterexample:
  "fst (InternalWaitForMultipleObjectsEx ready_collaborators idle_world 1
          (handle_array [7]) FALSE 0 TRUE FALSE) = WAIT_FAILED \<and>
   last_error (snd (InternalWaitForMultipleObjectsEx ready_collaborators idle_world 1
                      (handle_array [7]) FALSE 0 TRUE FALSE)) = ERROR_INTERNAL_ERROR \<and>
   GetControllers 1 \<in> set (calls (snd (InternalWaitForMultipleObjectsEx ready_collaborators
                                          idle_world 1 (handle_array [7]) FALSE 0 TRUE FALSE))) \<and>
   last_error (snd (InternalWaitForMultipleObjectsEx ready_collaborators idle_world 2
                      (handle_array [7, 8]) FALSE 0 TRUE FALSE)) = ERROR_NOT_SUPPORTED \<and>
   ERROR_NOT_SUPPORTED \<noteq> ERROR_INTERNAL_ERROR \<and>
   last_error (snd (InternalWaitForMultipleObjectsEx closed_collaborators idle_world 1
                      (handle_array [7]) FALSE 0 TRUE FALSE)) = ERROR_INVALID_HANDLE \<and>
   ERROR_INVALID_HANDLE \<noteq> ERROR_INTERNAL_ERROR"
proof -
  have one:
    "fst (InternalWaitForMultipleObjectsEx ready_collaborators idle_world 1
            (handle_array [7]) FALSE 0 TRUE FALSE) = WAIT_FAILED \<and>
     last_error (snd (InternalWaitForMultipleObjectsEx ready_collaborators idle_world 1
                        (handle_array [7]) FALSE 0 TRUE FALSE)) = ERROR_INTERNAL_ERROR \<and>
     GetControllers 1 \<in> set (calls (snd (InternalWaitForMultipleObjectsEx ready_collaborators
                                            idle_world 1 (handle_array [7]) FALSE 0 TRUE FALSE)))"
    by (simp add: single_object_simps constant_defs example_defs)
  have two:
    "last_error (snd (InternalWaitForMultipleObjectsEx ready_collaborators idle_world 2
                        (handle_array [7, 8]) FALSE 0 TRUE FALSE)) = ERROR_NOT_SUPPORTED"
    by (simp add: InternalWaitForMultipleObjectsEx_def MAXIMUM_WAIT_OBJECTS_def
        MAXIMUM_STACK_WAITOBJ_ARRAY_SIZE_def WFMOExIntCleanup_def WFMOExIntExit_def
        SetLastError_def release_references_other example_defs NO_ERROR_def Let_def)
  have three:
    "last_error (snd (InternalWaitForMultipleObjectsEx closed_collaborators idle_world 1
                        (handle_array [7]) FALSE 0 TRUE FALSE)) = ERROR_INVALID_HANDLE"
    by (simp add: single_object_simps constant_defs example_defs)
  have "ERROR_NOT_SUPPORTED \<noteq> ERROR_INTERNAL_ERROR"
    and "ERROR_INVALID_HANDLE \<noteq> ERROR_INTERNAL_ERROR"
    by (simp_all add: ERROR_NOT_SUPPORTED_def ERROR_INVALID_HANDLE_def
        ERROR_INTERNAL_ERROR_def)
  with one two three show ?thesis
    by simp
qed

text \<open>
  C4, amended. Every request with the alertable flag set returns \<open>WAIT_FAILED\<close>, and
  the rejection comes before any wait controller is used: no controller is asked
  whether the thread can proceed, none is asked to consume a signal, the thread is
  registered with none, and the thread does not block. When the request has passed the
  earlier validation, that is, the count is 1 and the handle resolves, the last error
  is \<open>ERROR_INTERNAL_ERROR\<close>. The statement leaves open whether controllers are
  requested and released on the way.
\<close>

theorem alertable_rejected:
  assumes al: "bAlertable \<noteq> 0"
  shows "case InternalWaitForMultipleObjectsEx c w nCount lpHandles bWaitAll dwMilliseconds
                bAlertable bPrioritize of
           (dwRet, w') \<Rightarrow>
             dwRet = WAIT_FAILED \<and>
             (\<exists>cs. calls w' = calls w @ cs \<and>
                set cs \<subseteq> {NewArray, DeleteArray, ReferenceObjects nCount, GetControllers nCount}
                           \<union> range ReleaseRef \<union> range ReleaseCtrl) \<and>
             (nCount = 1 \<and> fst (ReferenceMultipleObjectsByHandleArray c lpHandles 1) = NO_ERROR
                \<longrightarrow> last_error w' = ERROR_INTERNAL_ERROR)"
proof (cases nCount rule: count_cases)
  case bad
  then show ?thesis
    by (auto simp: InternalWaitForMultipleObjectsEx_def MAXIMUM_WAIT_OBJECTS_def
        MAXIMUM_STACK_WAITOBJ_ARRAY_SIZE_def WFMOExIntExit_def InternalDeleteArray_def
        SetLastError_def WAIT_FAILED_def)
next
  case one
  with al show ?thesis
    by (auto simp: single_object_simps constant_defs split: prod.splits)
next
  case many
  then have n0: "nCount \<noteq> 0" and n1: "nCount \<noteq> 1" and n64: "\<not> 64 < nCount"
    by auto
  have s: "nat (sint nCount) = unat nCount"
    using sint_count [OF many(2)] by simp
  show ?thesis
    using n0 n1 n64 many(1)
    by (auto simp: InternalWaitForMultipleObjectsEx_def MAXIMUM_WAIT_OBJECTS_def
        MAXIMUM_STACK_WAITOBJ_ARRAY_SIZE_def WFMOExIntCleanup_def WFMOExIntExit_def
        InternalDeleteArray_def SetLastError_def log_call_def s
        release_references_calls pin_objects_other Let_def split: prod.splits)
qed

theorem alertable_rejected_witness:
  "TRUE \<noteq> 0 \<and>
   fst (ReferenceMultipleObjectsByHandleArray ready_collaborators (handle_array [7]) 1)
     = NO_ERROR \<and>
   fst (InternalWaitForMultipleObjectsEx ready_collaborators idle_world 1 (handle_array [7])
          FALSE 1000 TRUE FALSE) = WAIT_FAILED \<and>
   last_error (snd (InternalWaitForMultipleObjectsEx ready_collaborators idle_world 1
                      (handle_array [7]) FALSE 1000 TRUE FALSE)) = ERROR_INTERNAL_ERROR"
proof -
  have al: "TRUE \<noteq> 0"
    by (simp add: TRUE_def)
  have r: "fst (ReferenceMultipleObjectsByHandleArray ready_collaborators (handle_array [7]) 1)
             = NO_ERROR"
    by (simp add: example_defs)
  show ?thesis
    using al r
      alertable_rejected [OF al, where c = ready_collaborators and w = idle_world
        and nCount = 1 and lpHandles = "handle_array [7]" and bWaitAll = FALSE
        and dwMilliseconds = 1000 and bPrioritize = FALSE]
    by (auto split: prod.splits)
qed

subsection \<open>Release of controllers and references\<close>

text \<open>
  On every path the reference counts after the call are the reference counts before
  it, and on every path of a request that is not alertable the number of controllers
  held is the number held before.
\<close>

lemma references_balanced:
  "refcount (snd (InternalWaitForMultipleObjectsEx c w nCount lpHandles bWaitAll dwMilliseconds
                    bAlertable bPrioritize)) = refcount w"
proof (cases nCount rule: count_cases)
  case bad
  then show ?thesis
    by (auto simp: InternalWaitForMultipleObjectsEx_def MAXIMUM_WAIT_OBJECTS_def
        MAXIMUM_STACK_WAITOBJ_ARRAY_SIZE_def WFMOExIntExit_def InternalDeleteArray_def
        SetLastError_def)
next
  case one
  then show ?thesis
    by (auto simp: single_object_simps constant_defs
        split: prod.splits option.splits ThreadWakeupReason.splits)
next
  case many
  then have n0: "nCount \<noteq> 0" and n1: "nCount \<noteq> 1" and n64: "\<not> 64 < nCount"
    by auto
  have s: "nat (sint nCount) = unat nCount"
    using sint_count [OF many(2)] by simp
  show ?thesis
    using n0 n1 n64 many(1)
    by (auto simp: InternalWaitForMultipleObjectsEx_def MAXIMUM_WAIT_OBJECTS_def
        MAXIMUM_STACK_WAITOBJ_ARRAY_SIZE_def WFMOExIntCleanup_def WFMOExIntExit_def
        InternalDeleteArray_def SetLastError_def log_call_def s
        release_references_refcount pin_objects_refcount pin_objects_other Let_def
        split: prod.splits)
qed

lemma controllers_balanced:
  assumes "bAlertable = 0"
  shows "controllers_held (snd (InternalWaitForMultipleObjectsEx c w nCount lpHandles bWaitAll
                                  dwMilliseconds bAlertable bPrioritize)) = controllers_held w"
proof (cases nCount rule: count_cases)
  case bad
  then show ?thesis
    by (auto simp: InternalWaitForMultipleObjectsEx_def MAXIMUM_WAIT_OBJECTS_def
        MAXIMUM_STACK_WAITOBJ_ARRAY_SIZE_def WFMOExIntExit_def InternalDeleteArray_def
        SetLastError_def)
next
  case one
  with assms show ?thesis
    by (auto simp: single_object_simps constant_defs
        split: prod.splits option.splits ThreadWakeupReason.splits)
next
  case many
  then have n0: "nCount \<noteq> 0" and n1: "nCount \<noteq> 1" and n64: "\<not> 64 < nCount"
    by auto
  have s: "nat (sint nCount) = unat nCount"
    using sint_count [OF many(2)] by simp
  show ?thesis
    using n0 n1 n64 many(1)
    by (auto simp: InternalWaitForMultipleObjectsEx_def MAXIMUM_WAIT_OBJECTS_def
        MAXIMUM_STACK_WAITOBJ_ARRAY_SIZE_def WFMOExIntCleanup_def WFMOExIntExit_def
        InternalDeleteArray_def SetLastError_def log_call_def s
        release_references_other pin_objects_other Let_def
        split: prod.splits)
qed

text \<open>
  C3 fails for an alertable request: with count 1, a handle that resolves and a
  controller that is obtained, the branch for \<open>bAlertable\<close> (lines 175-180) jumps to
  \<open>WFMOExIntCleanup\<close>, past the loop that releases the controllers. The controller of
  object 0 is obtained and never released: no \<open>ReleaseCtrl\<close> is among the calls and
  one controller is still held when the function returns.
\<close>

theorem alertable_wait_keeps_controller:
  "calls (snd (InternalWaitForMultipleObjectsEx ready_collaborators idle_world 1
                 (handle_array [7]) FALSE 1000 TRUE FALSE))
     = [ReferenceObjects 1, GetControllers 1, ReleaseRef 0] \<and>
   controllers_held (snd (InternalWaitForMultipleObjectsEx ready_collaborators idle_world 1
                            (handle_array [7]) FALSE 1000 TRUE FALSE)) = 1 \<and>
   controllers_held idle_world = 0"
  by (simp add: single_object_simps constant_defs example_defs)

subsection \<open>The index reported by BlockThread\<close>

text \<open>
  The blocking path with count 1: the controller is released before \<open>BlockThread\<close> is
  called, and for the wakeup reasons \<open>WaitSucceeded\<close> and \<open>MutexAbondoned\<close> a negative
  index gives \<open>WAIT_FAILED\<close> while any other index is added to the result.
\<close>

lemma blocking_path:
  assumes resolved: "ReferenceMultipleObjectsByHandleArray c lpHandles 1 = (NO_ERROR, objs)"
    and ctrls: "GetSynchWaitControllersForObjects c objs 1 = NO_ERROR"
    and na: "bAlertable = 0"
    and busy: "CanThreadWaitWithoutBlocking c 0 = (NO_ERROR, False, ab)"
    and ms: "dwMilliseconds \<noteq> 0"
    and registered: "RegisterWaitingThread c 0 SingleObject False (bPrioritize \<noteq> 0) = NO_ERROR"
    and woken: "BlockThread c dwMilliseconds False = (NO_ERROR, reason, written)"
  shows "case InternalWaitForMultipleObjectsEx c w 1 lpHandles bWaitAll dwMilliseconds
                bAlertable bPrioritize of
           (dwRet, w') \<Rightarrow>
             calls w' = calls w @ [ReferenceObjects 1, GetControllers 1, CanWait 0,
                           RegisterWaiting 0 SingleObject False (bPrioritize \<noteq> 0),
                           ReleaseCtrl 0, Block dwMilliseconds False, ReleaseRef 0] \<and>
             dwRet =
               (let iSignaledObjIndex = (case written of None \<Rightarrow> - 1 | Some d \<Rightarrow> sint d)
                in if reason = WaitSucceeded \<or> reason = MutexAbondoned
                   then if iSignaledObjIndex < 0 then WAIT_FAILED
                        else wakeup_result reason + word_of_int iSignaledObjIndex
                   else wakeup_result reason)"
  using assms
  by (cases reason; cases written)
    (simp_all add: single_object_simps constant_defs)

text \<open>
  C7 fails for an index at or above the count: with count 1, \<open>BlockThread\<close> reporting
  \<open>WaitSucceeded\<close> and index 5, the function returns \<open>WAIT_OBJECT_0 + 5\<close> and sets no
  error. The source asserts \<open>nCount > iSignaledObjIndex\<close> (line 331) but the only
  check outside the assertion is \<open>iSignaledObjIndex < 0\<close>.
\<close>

theorem index_above_count_is_returned:
  "fst (InternalWaitForMultipleObjectsEx (woken_collaborators WaitSucceeded 5) idle_world 1
          (handle_array [7]) FALSE 1000 FALSE FALSE) = WAIT_OBJECT_0 + 5 \<and>
   WAIT_OBJECT_0 + 5 \<noteq> WAIT_FAILED \<and>
   last_error (snd (InternalWaitForMultipleObjectsEx (woken_collaborators WaitSucceeded 5)
                      idle_world 1 (handle_array [7]) FALSE 1000 FALSE FALSE)) = NO_ERROR"
  by (simp add: single_object_simps constant_defs example_defs)

subsection \<open>The result codes\<close>

text \<open>
  The four families of result codes are pairwise disjoint for indices below 64, and the
  result of a call with count between 1 and 64 lies in one of them whenever the index
  written by \<open>BlockThread\<close> is below the count.
\<close>

lemma result_families_disjoint:
  assumes "i < 64" and "j < 64"
  shows "WAIT_OBJECT_0 + of_nat i \<noteq> WAIT_ABANDONED_0 + of_nat j"
    and "WAIT_OBJECT_0 + of_nat i \<noteq> WAIT_TIMEOUT"
    and "WAIT_OBJECT_0 + of_nat i \<noteq> WAIT_FAILED"
    and "WAIT_ABANDONED_0 + of_nat j \<noteq> WAIT_TIMEOUT"
    and "WAIT_ABANDONED_0 + of_nat j \<noteq> WAIT_FAILED"
    and "WAIT_TIMEOUT \<noteq> WAIT_FAILED"
proof -
  have a: "unat (WAIT_OBJECT_0 + of_nat i) = i"
    using assms(1) by (simp add: WAIT_OBJECT_0_def unat_of_nat)
  have "unat (WAIT_ABANDONED_0 + of_nat j) = unat (of_nat (128 + j) :: DWORD)"
    by (simp add: WAIT_ABANDONED_0_def)
  also have "\<dots> = 128 + j"
    using assms(2) by (simp only: unat_of_nat) simp
  finally have b: "unat (WAIT_ABANDONED_0 + of_nat j) = 128 + j" .
  have t: "unat WAIT_TIMEOUT = 258" and f: "unat WAIT_FAILED = 4294967295"
    by (simp_all add: WAIT_TIMEOUT_def WAIT_FAILED_def)
  show "WAIT_OBJECT_0 + of_nat i \<noteq> WAIT_ABANDONED_0 + of_nat j"
    using a b assms by auto
  show "WAIT_OBJECT_0 + of_nat i \<noteq> WAIT_TIMEOUT"
    using a t assms by auto
  show "WAIT_OBJECT_0 + of_nat i \<noteq> WAIT_FAILED"
    using a f assms by auto
  show "WAIT_ABANDONED_0 + of_nat j \<noteq> WAIT_TIMEOUT"
    using b t assms by auto
  show "WAIT_ABANDONED_0 + of_nat j \<noteq> WAIT_FAILED"
    using b f assms by auto
  show "WAIT_TIMEOUT \<noteq> WAIT_FAILED"
    by (simp add: WAIT_TIMEOUT_def WAIT_FAILED_def)
qed

lemma small_index:
  fixes d :: DWORD
  assumes "\<not> sint d < 0" and "sint d < 1"
  shows "d = 0"
proof -
  from assms have "sint d = 0"
    by simp
  then show ?thesis
    by (simp add: signed_eq_0_iff)
qed

lemma wakeup_result_case:
  "wakeup_result reason =
     (case reason of WaitSucceeded \<Rightarrow> WAIT_OBJECT_0 | MutexAbondoned \<Rightarrow> WAIT_ABANDONED_0
      | WaitTimeout \<Rightarrow> WAIT_TIMEOUT | WaitFailed \<Rightarrow> WAIT_FAILED | Alerted \<Rightarrow> WAIT_FAILED)"
  by (cases reason) simp_all

lemma result_code_families:
  assumes n0: "nCount \<noteq> 0" and le: "nCount \<le> 64"
    and idx: "\<forall>d. snd (snd (BlockThread c dwMilliseconds (TRUE = bAlertable))) = Some d
                  \<longrightarrow> sint d < int (unat nCount)"
  shows "(\<exists>i<unat nCount.
            fst (InternalWaitForMultipleObjectsEx c w nCount lpHandles bWaitAll dwMilliseconds
                   bAlertable bPrioritize) = WAIT_OBJECT_0 + of_nat i \<or>
            fst (InternalWaitForMultipleObjectsEx c w nCount lpHandles bWaitAll dwMilliseconds
                   bAlertable bPrioritize) = WAIT_ABANDONED_0 + of_nat i) \<or>
         fst (InternalWaitForMultipleObjectsEx c w nCount lpHandles bWaitAll dwMilliseconds
                bAlertable bPrioritize) = WAIT_TIMEOUT \<or>
         fst (InternalWaitForMultipleObjectsEx c w nCount lpHandles bWaitAll dwMilliseconds
                bAlertable bPrioritize) = WAIT_FAILED"
proof (cases nCount rule: count_cases)
  case bad
  with n0 le show ?thesis by auto
next
  case one
  with idx show ?thesis
    by (auto simp: single_object_simps wakeup_result_case constant_defs dest: small_index
        split: prod.splits option.splits ThreadWakeupReason.splits)
next
  case many
  then have n1: "nCount \<noteq> 1" and n64: "\<not> 64 < nCount"
    by auto
  show ?thesis
    using n0 n1 n64 many(1)
    by (auto simp: InternalWaitForMultipleObjectsEx_def MAXIMUM_WAIT_OBJECTS_def Let_def
        split: prod.splits)
qed

text \<open>
  C10 fails when \<open>BlockThread\<close> reports an index at or above the count: with count 1,
  reason \<open>MutexAbondoned\<close> and index 1 the function returns \<open>WAIT_ABANDONED_0 + 1\<close>,
  which is none of \<open>WAIT_OBJECT_0 + 0\<close>, \<open>WAIT_ABANDONED_0 + 0\<close>, \<open>WAIT_TIMEOUT\<close> and
  \<open>WAIT_FAILED\<close>.
\<close>

theorem result_code_outside_families:
  "fst (InternalWaitForMultipleObjectsEx (woken_collaborators MutexAbondoned 1) idle_world 1
          (handle_array [7]) FALSE 1000 FALSE FALSE) = WAIT_ABANDONED_0 + 1 \<and>
   WAIT_ABANDONED_0 + 1 \<notin> {WAIT_OBJECT_0 + 0, WAIT_ABANDONED_0 + 0, WAIT_TIMEOUT, WAIT_FAILED}"
  by (simp add: single_object_simps constant_defs example_defs)

end
